theory Spec2Isabelle
  imports Main "HOL-Library.AList" "HOL-Library.Char_ord" "HOL-Library.List_Lexorder"
    "HOL-Library.Word"
begin

section \<open>The key store of crypto/keys/keybase.go\<close>

text \<open>
  A shallow embedding of \<^verbatim>\<open>dbKeybase\<close>. Go strings and byte slices are
  \<open>string\<close> (a list of bytes); the order of \<open>string\<close> is the lexicographic order of
  the bytes, the one \<^verbatim>\<open>bytes.Compare\<close> computes. A Go function that returns
  \<^verbatim>\<open>(x, err)\<close> returns \<open>failure + 'a\<close> here; a panic is a failure of its own
  kind, so that a returned error and a panic are told apart. Every method takes the state
  (the database, standard input and standard output) and returns it updated.
\<close>

subsection \<open>Errors\<close>

datatype arg = ArgS string | ArgN nat

text \<open>
  \<open>ErrUnsupportedSigningAlgo\<close> and \<open>ErrUnsupportedLanguage\<close> are the two package
  variables; \<open>Errorf f args\<close> is \<^verbatim>\<open>fmt.Errorf(f, args...)\<close> with the format
  string kept unexpanded; \<open>ErrorsNew s\<close> is \<^verbatim>\<open>errors.New(s)\<close>; \<open>EOF\<close> is
  \<^verbatim>\<open>io.EOF\<close>; \<open>External s\<close> is an error some collaborator returned.
\<close>

datatype error =
    ErrUnsupportedSigningAlgo
  | ErrUnsupportedLanguage
  | Errorf string "arg list"
  | ErrorsNew string
  | EOF
  | External string

datatype failure = Err error | Panic error

subsection \<open>Data\<close>

type_synonym Language = int

definition English :: Language where "English = 1"
definition Japanese :: Language where "Japanese = 2"
definition Korean :: Language where "Korean = 3"
definition Spanish :: Language where "Spanish = 4"
definition ChineseSimplified :: Language where "ChineseSimplified = 5"
definition ChineseTraditional :: Language where "ChineseTraditional = 6"
definition French :: Language where "French = 7"
definition Italian :: Language where "Italian = 8"

type_synonym SigningAlgo = string

text \<open>
  Modelled from the spec: the declaration of \<^verbatim>\<open>SigningAlgo\<close> and of its constant
  \<^verbatim>\<open>Secp256k1\<close> (crypto/keys/types.go) is not among the sources; the spec names
  one supported algorithm, secp256k1, and rejects every other.
\<close>

definition Secp256k1 :: SigningAlgo where "Secp256k1 = ''secp256k1''"

type_synonym PubKey = string
type_synonym Signature = string
type_synonym DerivationPath = "32 word list"

datatype PrivKey =
    PrivKeySecp256k1 string
  | PrivKeyLedgerSecp256k1 PubKey DerivationPath

text \<open>
  Modelled from the spec: the record types \<^verbatim>\<open>localInfo\<close>, \<^verbatim>\<open>ledgerInfo\<close>
  and \<^verbatim>\<open>offlineInfo\<close> and their constructors \<^verbatim>\<open>newLocalInfo\<close>,
  \<^verbatim>\<open>newLedgerInfo\<close>, \<^verbatim>\<open>newOfflineInfo\<close> (crypto/keys/types.go) are not among
  the sources. The spec's data model: a record has a name and a public key and is Local
  (with the armored, encrypted private key), Hardware (with a derivation path) or WatchOnly
  (nothing more). The source reads the fields \<^verbatim>\<open>PrivKeyArmor\<close> and \<^verbatim>\<open>Path\<close> and
  calls \<^verbatim>\<open>GetPubKey\<close>.
\<close>

datatype Info =
    localInfo string PubKey string
  | ledgerInfo string PubKey DerivationPath
  | offlineInfo string PubKey

fun GetName :: "Info \<Rightarrow> string" where
  "GetName (localInfo n pk a) = n"
| "GetName (ledgerInfo n pk p) = n"
| "GetName (offlineInfo n pk) = n"

fun GetPubKey :: "Info \<Rightarrow> PubKey" where
  "GetPubKey (localInfo n pk a) = pk"
| "GetPubKey (ledgerInfo n pk p) = pk"
| "GetPubKey (offlineInfo n pk) = pk"

definition newLocalInfo :: "string \<Rightarrow> PubKey \<Rightarrow> string \<Rightarrow> Info" where
  "newLocalInfo name pub privArmor = localInfo name pub privArmor"


definition newOfflineInfo :: "string \<Rightarrow> PubKey \<Rightarrow> Info" where
  "newOfflineInfo name pub = offlineInfo name pub"

record BIP44Params =
  purpose :: "32 word"
  coinType :: "32 word"
  account :: "32 word"
  change :: bool
  addressIdx :: "32 word"

subsection \<open>The collaborators\<close>

text \<open>
  The functions the key store calls and whose code is not among the sources: the mnemonic
  and derivation packages (bip39, hd), the cryptography of tendermint, the hardware device,
  the armor codec and the record serialisation (mintkey.go, types.go, wire.go of the
  package) and the amino codec. They are parameters of the model. A randomised one
  (\<open>bip39_NewMnemonic\<close>, \<open>encryptArmorPrivKey\<close>) stands for the outcome of its draw.
  \<open>cdc_UnmarshalBinary bz ptr\<close> is the error, if any, of
  \<^verbatim>\<open>cdc.UnmarshalBinary(bz, ptr)\<close>, where \<open>ptr\<close> is the value handed over.
\<close>

record env =
  bip39_NewMnemonic :: "error + string list"
  bip39_MnemonicToSeed :: "string \<Rightarrow> string"
  bip39_MnemonicToSeedWithErrChecking :: "string \<Rightarrow> error + string"
  hd_ComputeMastersFromSeed :: "string \<Rightarrow> string \<times> string"
  hd_DerivePrivateKeyForPath :: "string \<Rightarrow> string \<Rightarrow> string \<Rightarrow> error + string"
  hd_FullFundraiserPath :: string
  BIP44Params_String :: "BIP44Params \<Rightarrow> string"
  crypto_NewPrivKeyLedgerSecp256k1 :: "DerivationPath \<Rightarrow> error + PrivKey"
  PrivKey_PubKey :: "PrivKey \<Rightarrow> PubKey"
  PrivKey_Sign :: "PrivKey \<Rightarrow> string \<Rightarrow> error + Signature"
  PubKey_Bytes :: "PubKey \<Rightarrow> string"
  tcrypto_PubKeyFromBytes :: "string \<Rightarrow> error + PubKey"
  encryptArmorPrivKey :: "PrivKey \<Rightarrow> string \<Rightarrow> string"
  unarmorDecryptPrivKey :: "string \<Rightarrow> string \<Rightarrow> error + PrivKey"
  armorInfoBytes :: "string \<Rightarrow> string"
  unarmorInfoBytes :: "string \<Rightarrow> error + string"
  armorPubKeyBytes :: "string \<Rightarrow> string"
  unarmorPubKeyBytes :: "string \<Rightarrow> error + string"
  writeInfo :: "Info \<Rightarrow> string"
  readInfo :: "string \<Rightarrow> error + Info"
  cdc_UnmarshalBinary :: "string \<Rightarrow> Signature option \<Rightarrow> error option"

subsection \<open>The database, standard input and standard output\<close>

text \<open>
  \<^verbatim>\<open>dbm.DB\<close> (tendermint) is an external key-value store: \<^verbatim>\<open>Get\<close> gives nil for
  an absent key, \<^verbatim>\<open>Set\<close> and \<^verbatim>\<open>SetSync\<close> store a value, \<^verbatim>\<open>DeleteSync\<close>
  removes a key, and \<^verbatim>\<open>Iterator(nil, nil)\<close> runs over all entries in ascending
  order of the keys (the spec lists the same interface for the persistent record store).
  The contents are an association list, and \<open>dblog\<close> records which primitive every
  write went through.
\<close>

datatype db_op =
    OpSet string string
  | OpSetSync string string
  | OpDeleteSync string

record state =
  db :: "(string \<times> string) list"
  dblog :: "db_op list"
  stdin :: string
  stdout :: string

definition db_Get :: "state \<Rightarrow> string \<Rightarrow> string option" where
  "db_Get st key = map_of (db st) key"

definition db_Set :: "string \<Rightarrow> string \<Rightarrow> state \<Rightarrow> state" where
  "db_Set key val st =
     st\<lparr>db := AList.update key val (db st), dblog := dblog st @ [OpSet key val]\<rparr>"

definition db_SetSync :: "string \<Rightarrow> string \<Rightarrow> state \<Rightarrow> state" where
  "db_SetSync key val st =
     st\<lparr>db := AList.update key val (db st), dblog := dblog st @ [OpSetSync key val]\<rparr>"

definition db_DeleteSync :: "string \<Rightarrow> state \<Rightarrow> state" where
  "db_DeleteSync key st =
     st\<lparr>db := AList.delete key (db st), dblog := dblog st @ [OpDeleteSync key]\<rparr>"

definition db_Iterator :: "state \<Rightarrow> (string \<times> string) list" where
  "db_Iterator st = sort_key fst (db st)"

text \<open>
  \<^verbatim>\<open>strings.Split(s, sep)\<close> for a separator of one byte: the pieces between the
  occurrences of the separator, empty pieces included, so that a string with n separators
  gives n + 1 pieces.
\<close>

fun Split :: "string \<Rightarrow> char \<Rightarrow> string list" where
  "Split [] sep = [[]]"
| "Split (c # cs) sep =
     (if c = sep then [] # Split cs sep
      else (case Split cs sep of [] \<Rightarrow> [[c]] | w # ws \<Rightarrow> (c # w) # ws))"

text \<open>
  \<^verbatim>\<open>bufio.Reader.ReadString(delim)\<close>: the input up to and including the first
  \<open>delim\<close>, or \<^verbatim>\<open>io.EOF\<close> when the input ends before one. The second component is
  the input left. Standard input is the whole input that will arrive: the time the reader
  waits for it is not part of the model.
\<close>

fun ReadString :: "string \<Rightarrow> char \<Rightarrow> (error + string) \<times> string" where
  "ReadString [] delim = (Inl EOF, [])"
| "ReadString (c # cs) delim =
     (if c = delim then (Inr [c], cs)
      else (case ReadString cs delim of
              (Inl e, rest) \<Rightarrow> (Inl e, rest)
            | (Inr s, rest) \<Rightarrow> (Inr (c # s), rest)))"

text \<open>\<^verbatim>\<open>strings.Join(ws, sep)\<close>.\<close>

fun Join :: "string list \<Rightarrow> string \<Rightarrow> string" where
  "Join [] sep = []"
| "Join [w] sep = w"
| "Join (w # v # ws) sep = w @ sep @ Join (v # ws) sep"

definition Printf :: "string \<Rightarrow> state \<Rightarrow> state" where
  "Printf s st = st\<lparr>stdout := stdout st @ s\<rparr>"

text \<open>
  \<^verbatim>\<open>cdc.MustUnmarshalBinary(bz, ptr)\<close> panics with the error of
  \<^verbatim>\<open>UnmarshalBinary\<close>, and returns nothing otherwise: Go hands \<open>ptr\<close> over by
  value, so the caller's variable is what it was.
\<close>

definition MustUnmarshalBinary :: "env \<Rightarrow> string \<Rightarrow> Signature option \<Rightarrow> failure + unit" where
  "MustUnmarshalBinary e bz ptr =
     (case cdc_UnmarshalBinary e bz ptr of
        Some err \<Rightarrow> Inl (Panic err)
      | None \<Rightarrow> Inr ())"

subsection \<open>The methods of dbKeybase\<close>

definition infoKey :: "string \<Rightarrow> string" where
  "infoKey name = name @ ''.info''"

definition kb_writeInfo :: "env \<Rightarrow> Info \<Rightarrow> string \<Rightarrow> state \<Rightarrow> state" where
  "kb_writeInfo e info name st = db_SetSync (infoKey name) (writeInfo e info) st"

definition writeLocalKey :: "env \<Rightarrow> PrivKey \<Rightarrow> string \<Rightarrow> string \<Rightarrow> state \<Rightarrow> Info \<times> state" where
  "writeLocalKey e priv name passphrase st =
     (let privArmor = encryptArmorPrivKey e priv passphrase;
          pub = PrivKey_PubKey e priv;
          info = newLocalInfo name pub privArmor
      in (info, kb_writeInfo e info name st))"


definition writeOfflineKey :: "env \<Rightarrow> PubKey \<Rightarrow> string \<Rightarrow> state \<Rightarrow> Info \<times> state" where
  "writeOfflineKey e pub name st =
     (let info = newOfflineInfo name pub in (info, kb_writeInfo e info name st))"

definition persistDerivedKey ::
  "env \<Rightarrow> string \<Rightarrow> string \<Rightarrow> string \<Rightarrow> string \<Rightarrow> state \<Rightarrow> (failure + Info) \<times> state" where
  "persistDerivedKey e seed passwd name fullHdPath st =
     (case hd_ComputeMastersFromSeed e seed of (masterPriv, ch) \<Rightarrow>
        (case hd_DerivePrivateKeyForPath e masterPriv ch fullHdPath of
           Inl err \<Rightarrow> (Inl (Err err), st)
         | Inr derivedPriv \<Rightarrow>
             (if passwd \<noteq> ''''
              then (case writeLocalKey e (PrivKeySecp256k1 derivedPriv) name passwd st of
                      (info, st') \<Rightarrow> (Inr info, st'))
              else (let pubk = PrivKey_PubKey e (PrivKeySecp256k1 derivedPriv)
                    in (case writeOfflineKey e pubk name st of
                          (info, st') \<Rightarrow> (Inr info, st'))))))"

text \<open>
  \<^verbatim>\<open>CreateMnemonic\<close> returns \<^verbatim>\<open>(info, mnemonic, err)\<close>; when
  \<^verbatim>\<open>persistDerivedKey\<close> fails, the Go function returns the mnemonic beside the error,
  which the model leaves out of the failure.
\<close>

definition CreateMnemonic ::
  "env \<Rightarrow> string \<Rightarrow> Language \<Rightarrow> string \<Rightarrow> SigningAlgo \<Rightarrow> state
     \<Rightarrow> (failure + Info \<times> string) \<times> state" where
  "CreateMnemonic e name language passwd algo st =
     (if language \<noteq> English then (Inl (Err ErrUnsupportedLanguage), st)
      else if algo \<noteq> Secp256k1 then (Inl (Err ErrUnsupportedSigningAlgo), st)
      else (case bip39_NewMnemonic e of
              Inl err \<Rightarrow> (Inl (Err err), st)
            | Inr mnemonicS \<Rightarrow>
                (let mnemonic = Join mnemonicS '' '';
                     seed = bip39_MnemonicToSeed e mnemonic
                 in (case persistDerivedKey e seed passwd name (hd_FullFundraiserPath e) st of
                       (Inl f, st') \<Rightarrow> (Inl f, st')
                     | (Inr info, st') \<Rightarrow> (Inr (info, mnemonic), st')))))"

definition CreateKey ::
  "env \<Rightarrow> string \<Rightarrow> string \<Rightarrow> string \<Rightarrow> state \<Rightarrow> (failure + Info) \<times> state" where
  "CreateKey e name mnemonic passwd st =
     (let words = Split mnemonic CHR '' '' in
      if length words \<noteq> 12 \<and> length words \<noteq> 24
      then (Inl (Err (Errorf
              ''recovering only works with 12 word (fundraiser) or 24 word mnemonics, got: %v words''
              [ArgN (length words)])), st)
      else (case bip39_MnemonicToSeedWithErrChecking e mnemonic of
              Inl err \<Rightarrow> (Inl (Err err), st)
            | Inr seed \<Rightarrow> persistDerivedKey e seed passwd name (hd_FullFundraiserPath e) st))"

definition CreateFundraiserKey ::
  "env \<Rightarrow> string \<Rightarrow> string \<Rightarrow> string \<Rightarrow> state \<Rightarrow> (failure + Info) \<times> state" where
  "CreateFundraiserKey e name mnemonic passwd st =
     (let words = Split mnemonic CHR '' '' in
      if length words \<noteq> 12
      then (Inl (Err (Errorf
              ''recovering only works with 12 word (fundraiser), got: %v words''
              [ArgN (length words)])), st)
      else (case bip39_MnemonicToSeedWithErrChecking e mnemonic of
              Inl err \<Rightarrow> (Inl (Err err), st)
            | Inr seed \<Rightarrow> persistDerivedKey e seed passwd name (hd_FullFundraiserPath e) st))"



definition CreateOffline ::
  "env \<Rightarrow> string \<Rightarrow> PubKey \<Rightarrow> state \<Rightarrow> (failure + Info) \<times> state" where
  "CreateOffline e name pub st =
     (case writeOfflineKey e pub name st of (info, st') \<Rightarrow> (Inr info, st'))"

text \<open>The loop of \<^verbatim>\<open>List\<close> over the entries the iterator yields.\<close>

fun List_loop :: "env \<Rightarrow> (string \<times> string) list \<Rightarrow> Info list \<Rightarrow> failure + Info list" where
  "List_loop e [] res = Inr res"
| "List_loop e ((k, v) # it) res =
     (case readInfo e v of
        Inl err \<Rightarrow> Inl (Err err)
      | Inr info \<Rightarrow> List_loop e it (res @ [info]))"

definition List :: "env \<Rightarrow> state \<Rightarrow> (failure + Info list) \<times> state" where
  "List e st = (List_loop e (db_Iterator st) [], st)"

definition Get :: "env \<Rightarrow> string \<Rightarrow> state \<Rightarrow> failure + Info" where
  "Get e name st =
     (case db_Get st (infoKey name) of
        None \<Rightarrow> Inl (Err (Errorf ''Key %s not found'' [ArgS name]))
      | Some bs \<Rightarrow>
          (if length bs = 0 then Inl (Err (Errorf ''Key %s not found'' [ArgS name]))
           else (case readInfo e bs of Inl err \<Rightarrow> Inl (Err err) | Inr info \<Rightarrow> Inr info)))"

text \<open>
  \<^verbatim>\<open>Sign\<close> returns \<^verbatim>\<open>(sig, pub, err)\<close>; \<open>sig\<close> is an interface value, nil
  (\<open>None\<close>) until it is assigned. In the \<^verbatim>\<open>offlineInfo\<close> case the source prints the
  message, reads a line of standard input, hands the line and \<open>sig\<close> itself (not a
  pointer to it) to \<^verbatim>\<open>cdc.MustUnmarshalBinary\<close>, and returns \<open>sig\<close>.
\<close>

definition Sign ::
  "env \<Rightarrow> string \<Rightarrow> string \<Rightarrow> string \<Rightarrow> state
     \<Rightarrow> (failure + Signature option \<times> PubKey) \<times> state" where
  "Sign e name passphrase msg st =
     (case Get e name st of
        Inl f \<Rightarrow> (Inl f, st)
      | Inr (localInfo n pk PrivKeyArmor) \<Rightarrow>
          (if PrivKeyArmor = '''' then (Inl (Err (Errorf ''private key not available'' [])), st)
           else (case unarmorDecryptPrivKey e PrivKeyArmor passphrase of
                   Inl err \<Rightarrow> (Inl (Err err), st)
                 | Inr priv \<Rightarrow>
                     (case PrivKey_Sign e priv msg of
                        Inl err \<Rightarrow> (Inl (Err err), st)
                      | Inr sig \<Rightarrow> (Inr (Some sig, PrivKey_PubKey e priv), st))))
      | Inr (ledgerInfo n pk Path) \<Rightarrow>
          (case crypto_NewPrivKeyLedgerSecp256k1 e Path of
             Inl err \<Rightarrow> (Inl (Err err), st)
           | Inr priv \<Rightarrow>
               (case PrivKey_Sign e priv msg of
                  Inl err \<Rightarrow> (Inl (Err err), st)
                | Inr sig \<Rightarrow> (Inr (Some sig, PrivKey_PubKey e priv), st)))
      | Inr (offlineInfo n pk) \<Rightarrow>
          (let sig = None;
               st1 = Printf (''Bytes to sign:'' @ [CHR 0x0A] @ msg) st;
               st2 = Printf ([CHR 0x0A] @ ''Enter Amino-encoded signature:'' @ [CHR 0x0A]) st1
           in (case ReadString (stdin st2) (CHR 0x0A) of
                 (Inl err, rest) \<Rightarrow> (Inl (Err err), st2\<lparr>stdin := rest\<rparr>)
               | (Inr signed_line, rest) \<Rightarrow>
                   (case MustUnmarshalBinary e signed_line sig of
                      Inl f \<Rightarrow> (Inl f, st2\<lparr>stdin := rest\<rparr>)
                    | Inr u \<Rightarrow> (Inr (sig, GetPubKey (offlineInfo n pk)), st2\<lparr>stdin := rest\<rparr>)))))"

definition ExportPrivateKeyObject ::
  "env \<Rightarrow> string \<Rightarrow> string \<Rightarrow> state \<Rightarrow> failure + PrivKey" where
  "ExportPrivateKeyObject e name passphrase st =
     (case Get e name st of
        Inl f \<Rightarrow> Inl f
      | Inr (localInfo n pk PrivKeyArmor) \<Rightarrow>
          (if PrivKeyArmor = '''' then Inl (Err (Errorf ''private key not available'' []))
           else (case unarmorDecryptPrivKey e PrivKeyArmor passphrase of
                   Inl err \<Rightarrow> Inl (Err err)
                 | Inr priv \<Rightarrow> Inr priv))
      | Inr (ledgerInfo n pk Path) \<Rightarrow> Inl (Err (ErrorsNew ''Only works on local private keys''))
      | Inr (offlineInfo n pk) \<Rightarrow> Inl (Err (ErrorsNew ''Only works on local private keys'')))"

definition Export :: "env \<Rightarrow> string \<Rightarrow> state \<Rightarrow> failure + string" where
  "Export e name st =
     (case db_Get st (infoKey name) of
        None \<Rightarrow> Inl (Err (Errorf ''no key to export with name %s'' [ArgS name]))
      | Some bz \<Rightarrow> Inr (armorInfoBytes e bz))"

definition ExportPubKey :: "env \<Rightarrow> string \<Rightarrow> state \<Rightarrow> failure + string" where
  "ExportPubKey e name st =
     (case db_Get st (infoKey name) of
        None \<Rightarrow> Inl (Err (Errorf ''no key to export with name %s'' [ArgS name]))
      | Some bz \<Rightarrow>
          (case readInfo e bz of
             Inl err \<Rightarrow> Inl (Err err)
           | Inr info \<Rightarrow> Inr (armorPubKeyBytes e (PubKey_Bytes e (GetPubKey info)))))"

definition Import :: "env \<Rightarrow> string \<Rightarrow> string \<Rightarrow> state \<Rightarrow> (failure + unit) \<times> state" where
  "Import e name armor st =
     (let bz = (case db_Get st (infoKey name) of None \<Rightarrow> [] | Some b \<Rightarrow> b) in
      if length bz > 0
      then (Inl (Err (ErrorsNew (''Cannot overwrite data for name '' @ name))), st)
      else (case unarmorInfoBytes e armor of
              Inl err \<Rightarrow> (Inl (Err err), st)
            | Inr infoBytes \<Rightarrow> (Inr (), db_Set (infoKey name) infoBytes st)))"

definition ImportPubKey :: "env \<Rightarrow> string \<Rightarrow> string \<Rightarrow> state \<Rightarrow> (failure + unit) \<times> state" where
  "ImportPubKey e name armor st =
     (let bz = (case db_Get st (infoKey name) of None \<Rightarrow> [] | Some b \<Rightarrow> b) in
      if length bz > 0
      then (Inl (Err (ErrorsNew (''Cannot overwrite data for name '' @ name))), st)
      else (case unarmorPubKeyBytes e armor of
              Inl err \<Rightarrow> (Inl (Err err), st)
            | Inr pubBytes \<Rightarrow>
                (case tcrypto_PubKeyFromBytes e pubBytes of
                   Inl err \<Rightarrow> (Inl (Err err), st)
                 | Inr pubKey \<Rightarrow>
                     (case writeOfflineKey e pubKey name st of
                        (info, st') \<Rightarrow> (Inr (), st')))))"

definition Delete :: "env \<Rightarrow> string \<Rightarrow> string \<Rightarrow> state \<Rightarrow> (failure + unit) \<times> state" where
  "Delete e name passphrase st =
     (case Get e name st of
        Inl f \<Rightarrow> (Inl f, st)
      | Inr (localInfo n pk PrivKeyArmor) \<Rightarrow>
          (case unarmorDecryptPrivKey e PrivKeyArmor passphrase of
             Inl err \<Rightarrow> (Inl (Err err), st)
           | Inr priv \<Rightarrow> (Inr (), db_DeleteSync (infoKey name) st))
      | Inr (ledgerInfo n pk Path) \<Rightarrow> (Inr (), st)
      | Inr (offlineInfo n pk) \<Rightarrow>
          (if passphrase \<noteq> ''yes''
           then (Inl (Err (Errorf
                   ''enter 'yes' exactly to delete the key - this cannot be undone'' [])), st)
           else (Inr (), db_DeleteSync (infoKey name) st)))"


subsection \<open>A test double of the collaborators\<close>

text \<open>
  A small, computable instance of the collaborators, for running the methods on concrete
  inputs. A record is serialised as its tag and fields separated by \<open>/\<close>; the armor of a
  private key is the passphrase, a colon and the key; the public key of \<open>k\<close> is
  \<open>pub-k\<close>; the seed of a mnemonic is the first letters of its words; the amino codec
  rejects a reply of fewer than two bytes.
\<close>

definition test_writeInfo :: "Info \<Rightarrow> string" where
  "test_writeInfo i =
     (case i of
        localInfo n pk a \<Rightarrow> ''L/'' @ n @ ''/'' @ pk @ ''/'' @ a
      | ledgerInfo n pk p \<Rightarrow> ''H/'' @ n @ ''/'' @ pk @ ''/'' @ map (\<lambda>w. char_of (unat w)) p
      | offlineInfo n pk \<Rightarrow> ''O/'' @ n @ ''/'' @ pk)"

definition test_readInfo :: "string \<Rightarrow> error + Info" where
  "test_readInfo bz =
     (case Split bz CHR ''/'' of
        [t, n, pk] \<Rightarrow>
          (if t = ''O'' then Inr (offlineInfo n pk) else Inl (External ''unknown record''))
      | [t, n, pk, x] \<Rightarrow>
          (if t = ''L'' then Inr (localInfo n pk x)
           else if t = ''H'' then Inr (ledgerInfo n pk (map of_char x))
           else Inl (External ''unknown record''))
      | _ \<Rightarrow> Inl (External ''unknown record''))"

definition test_PubKey :: "PrivKey \<Rightarrow> PubKey" where
  "test_PubKey priv =
     (case priv of
        PrivKeySecp256k1 k \<Rightarrow> ''pub-'' @ k
      | PrivKeyLedgerSecp256k1 pk p \<Rightarrow> pk)"

definition test_encrypt :: "PrivKey \<Rightarrow> string \<Rightarrow> string" where
  "test_encrypt priv passphrase =
     (case priv of
        PrivKeySecp256k1 k \<Rightarrow> passphrase @ '':'' @ k
      | PrivKeyLedgerSecp256k1 pk p \<Rightarrow> passphrase @ '':'')"

definition test_decrypt :: "string \<Rightarrow> string \<Rightarrow> error + PrivKey" where
  "test_decrypt armor passphrase =
     (case Split armor CHR '':'' of
        [p, k] \<Rightarrow>
          (if p = passphrase then Inr (PrivKeySecp256k1 k)
           else Inl (External ''invalid account password''))
      | _ \<Rightarrow> Inl (External ''unrecognized armor''))"

definition test_seed :: "string \<Rightarrow> error + string" where
  "test_seed mnemonic =
     (if [] \<in> set (Split mnemonic CHR '' '') then Inl (External ''invalid mnemonic'')
      else Inr (map hd (Split mnemonic CHR '' '')))"

definition test_env :: env where
  "test_env =
     \<lparr> bip39_NewMnemonic = Inr (replicate 24 ''zoo''),
       bip39_MnemonicToSeed = (\<lambda>m. map hd (Split m CHR '' '')),
       bip39_MnemonicToSeedWithErrChecking = test_seed,
       hd_ComputeMastersFromSeed = (\<lambda>seed. (take 2 seed, drop 2 seed)),
       hd_DerivePrivateKeyForPath =
         (\<lambda>m ch path. if path = [] then Inl (External ''empty path'') else Inr (m @ take 2 ch)),
       hd_FullFundraiserPath = ''44H/118H/0H/0/0'',
       BIP44Params_String = (\<lambda>p. ''44H/118H/0H/0/0''),
       crypto_NewPrivKeyLedgerSecp256k1 = (\<lambda>path. Inr (PrivKeyLedgerSecp256k1 ''ledgerpub'' path)),
       PrivKey_PubKey = test_PubKey,
       PrivKey_Sign = (\<lambda>priv msg. Inr (''sig-'' @ test_PubKey priv @ ''-'' @ msg)),
       PubKey_Bytes = (\<lambda>pk. pk),
       tcrypto_PubKeyFromBytes =
         (\<lambda>bz. if bz = [] then Inl (External ''empty public key'') else Inr bz),
       encryptArmorPrivKey = test_encrypt,
       unarmorDecryptPrivKey = test_decrypt,
       armorInfoBytes = (\<lambda>bz. ''INFO:'' @ bz),
       unarmorInfoBytes =
         (\<lambda>a. if take 5 a = ''INFO:'' then Inr (drop 5 a) else Inl (External ''unrecognized armor'')),
       armorPubKeyBytes = (\<lambda>bz. ''PUB:'' @ bz),
       unarmorPubKeyBytes =
         (\<lambda>a. if take 4 a = ''PUB:'' then Inr (drop 4 a) else Inl (External ''unrecognized armor'')),
       writeInfo = test_writeInfo,
       readInfo = test_readInfo,
       cdc_UnmarshalBinary =
         (\<lambda>bz ptr. if length bz < 2 then Some (External ''not enough bytes'') else None) \<rparr>"

definition empty_state :: state where
  "empty_state = \<lparr> db = [], dblog = [], stdin = [], stdout = [] \<rparr>"

text \<open>
  A store with a Local record (passphrase \<open>pw\<close>), a WatchOnly record and a Hardware
  record, as the test double serialises them.
\<close>

definition test_state :: state where
  "test_state =
     \<lparr> db = [(''alice.info'', ''L/alice/pub-k1/pw:k1''),
             (''bob.info'', ''O/bob/pub-k2''),
             (''nano.info'', ''H/nano/ledgerpub/'')],
       dblog = [], stdin = [], stdout = [] \<rparr>"

section \<open>Properties\<close>

subsection \<open>The database primitives\<close>

lemma db_Get_DeleteSync_same: "db_Get (db_DeleteSync key st) key = None"
  by (simp add: db_Get_def db_DeleteSync_def AList.delete_conv')

lemma db_Get_DeleteSync_other: "k \<noteq> key \<Longrightarrow> db_Get (db_DeleteSync key st) k = db_Get st k"
  by (simp add: db_Get_def db_DeleteSync_def)





lemma db_Get_Set: "db_Get (db_Set key val st) k = (if k = key then Some val else db_Get st k)"
  by (simp add: db_Get_def db_Set_def AList.update_conv')

lemma Get_after_DeleteSync:
  "Get e name (db_DeleteSync (infoKey name) st) = Inl (Err (Errorf ''Key %s not found'' [ArgS name]))"
  by (simp add: Get_def db_Get_DeleteSync_same)

lemma sorted_db_Iterator: "sorted (map fst (db_Iterator st))"
  by (simp add: db_Iterator_def)

subsection \<open>The test double\<close>

lemma test_env_sel:
  "readInfo test_env = test_readInfo" "writeInfo test_env = test_writeInfo"
  "unarmorDecryptPrivKey test_env = test_decrypt"
  "encryptArmorPrivKey test_env = test_encrypt"
  "PrivKey_PubKey test_env = test_PubKey"
  "bip39_MnemonicToSeedWithErrChecking test_env = test_seed"
  "cdc_UnmarshalBinary test_env = (\<lambda>bz ptr. if length bz < 2 then Some (External ''not enough bytes'') else None)"
  by (simp_all add: test_env_def)

subsection \<open>Reading a line, and signing for a WatchOnly record\<close>

lemma ReadString_error: "ReadString s delim = (Inl err, rest) \<Longrightarrow> err = EOF"
  by (induction s arbitrary: rest) (auto split: if_splits prod.splits sum.splits)

lemma Sign_offlineInfo:
  assumes "Get e name st = Inr (offlineInfo n pk)"
  shows "fst (Sign e name passphrase msg st) =
     (case fst (ReadString (stdin st) (CHR 0x0A)) of
        Inl err \<Rightarrow> Inl (Err err)
      | Inr line \<Rightarrow>
          (case cdc_UnmarshalBinary e line None of
             Some err \<Rightarrow> Inl (Panic err)
           | None \<Rightarrow> Inr (None, pk)))"
  using assms
  by (simp add: Sign_def Let_def Printf_def MustUnmarshalBinary_def
      split: prod.splits sum.splits option.splits)

subsection \<open>Running the methods on the test double\<close>

lemma Get_test_state:
  "Get test_env ''alice'' (test_state\<lparr>stdin := inp\<rparr>) = Inr (localInfo ''alice'' ''pub-k1'' ''pw:k1'')"
  "Get test_env ''bob'' (test_state\<lparr>stdin := inp\<rparr>) = Inr (offlineInfo ''bob'' ''pub-k2'')"
  "Get test_env ''nano'' (test_state\<lparr>stdin := inp\<rparr>) = Inr (ledgerInfo ''nano'' ''ledgerpub'' [])"
  by (simp_all add: Get_def db_Get_def test_state_def infoKey_def test_env_sel test_readInfo_def)

lemma Get_test_state0:
  "Get test_env ''alice'' test_state = Inr (localInfo ''alice'' ''pub-k1'' ''pw:k1'')"
  "Get test_env ''bob'' test_state = Inr (offlineInfo ''bob'' ''pub-k2'')"
  "Get test_env ''nano'' test_state = Inr (ledgerInfo ''nano'' ''ledgerpub'' [])"
  by (simp_all add: Get_def db_Get_def test_state_def infoKey_def test_env_sel test_readInfo_def)

lemma test_decrypt_k1:
  "unarmorDecryptPrivKey test_env ''pw:k1'' ''bad'' = Inl (External ''invalid account password'')"
  "unarmorDecryptPrivKey test_env ''pw:k1'' ''pw'' = Inr (PrivKeySecp256k1 ''k1'')"
  by (simp_all add: test_env_sel test_decrypt_def)

lemma Sign_bob_SIG:
  "fst (Sign test_env ''bob'' '''' ''msg'' (test_state\<lparr>stdin := ''SIG'' @ [CHR 0x0A]\<rparr>))
      = Inr (None, ''pub-k2'')"
  by (simp add: Sign_offlineInfo [OF Get_test_state(2)] test_env_sel)






subsection \<open>The reply to a WatchOnly signing request\<close>

text \<open>
  Claim C1. The claim: for a stored WatchOnly record, \<^verbatim>\<open>Sign\<close> waits for a reply on
  standard input and returns exactly that reply as the signature, with the stored public
  key. The source hands \<open>sig\<close> to the codec by value and never assigns it, so the
  signature it returns is nil: whatever the collaborators are and whatever the reply is,
  \<^verbatim>\<open>Sign\<close> on a WatchOnly record ends in \<^verbatim>\<open>io.EOF\<close> (no line came), in a panic
  of the codec, or in the nil signature with the stored public key. It never returns the
  reply.
\<close>
theorem Sign_WatchOnly_reply_discarded:
  assumes "Get e name st = Inr (offlineInfo n pk)"
  shows "fst (Sign e name passphrase msg st) = Inl (Err EOF)
       \<or> (\<exists>err. fst (Sign e name passphrase msg st) = Inl (Panic err))
       \<or> fst (Sign e name passphrase msg st) = Inr (None, pk)"
proof (cases "ReadString (stdin st) (CHR 0x0A)")
  case (Pair r rest)
  show ?thesis
  proof (cases r)
    case (Inl err)
    with Pair have "err = EOF" by (simp add: ReadString_error)
    with Inl Pair show ?thesis by (simp add: Sign_offlineInfo [OF assms])
  next
    case (Inr line)
    with Pair show ?thesis
      by (simp add: Sign_offlineInfo [OF assms] split: option.splits)
  qed
qed

theorem Sign_WatchOnly_reply_discarded_witness:
  "Get test_env ''bob'' (test_state\<lparr>stdin := ''SIG'' @ [CHR 0x0A]\<rparr>)
     = Inr (offlineInfo ''bob'' ''pub-k2'') \<and>
   (fst (Sign test_env ''bob'' '''' ''msg'' (test_state\<lparr>stdin := ''SIG'' @ [CHR 0x0A]\<rparr>))
      = Inl (Err EOF)
    \<or> (\<exists>err. fst (Sign test_env ''bob'' '''' ''msg'' (test_state\<lparr>stdin := ''SIG'' @ [CHR 0x0A]\<rparr>))
          = Inl (Panic err))
    \<or> fst (Sign test_env ''bob'' '''' ''msg'' (test_state\<lparr>stdin := ''SIG'' @ [CHR 0x0A]\<rparr>))
      = Inr (None, ''pub-k2''))"
  using Get_test_state(2) [of "''SIG'' @ [CHR 0x0A]"]
    Sign_WatchOnly_reply_discarded [OF Get_test_state(2) [of "''SIG'' @ [CHR 0x0A]"],
      of "''''" "''msg''"]
  by blast

text \<open>
  Claim C2. The claim: every operation returns a value or a typed failure, and no panic
  leaves the store, also for a malformed reply in the WatchOnly signing path. In the
  source the reply goes to \<^verbatim>\<open>cdc.MustUnmarshalBinary\<close>: whenever the codec rejects
  the line read, \<^verbatim>\<open>Sign\<close> panics with the codec's error instead of returning it.
\<close>
theorem Sign_WatchOnly_panics:
  assumes "Get e name st = Inr (offlineInfo n pk)"
    and "ReadString (stdin st) (CHR 0x0A) = (Inr line, rest)"
    and "cdc_UnmarshalBinary e line None = Some err"
  shows "fst (Sign e name passphrase msg st) = Inl (Panic err)"
  using assms(2,3) by (simp add: Sign_offlineInfo [OF assms(1)])

theorem Sign_WatchOnly_panics_witness:
  "Get test_env ''bob'' (test_state\<lparr>stdin := [CHR 0x0A]\<rparr>) = Inr (offlineInfo ''bob'' ''pub-k2'') \<and>
   ReadString (stdin (test_state\<lparr>stdin := [CHR 0x0A]\<rparr>)) (CHR 0x0A) = (Inr [CHR 0x0A], []) \<and>
   cdc_UnmarshalBinary test_env [CHR 0x0A] None = Some (External ''not enough bytes'') \<and>
   fst (Sign test_env ''bob'' '''' ''msg'' (test_state\<lparr>stdin := [CHR 0x0A]\<rparr>))
     = Inl (Panic (External ''not enough bytes''))"
proof -
  have g: "Get test_env ''bob'' (test_state\<lparr>stdin := [CHR 0x0A]\<rparr>) = Inr (offlineInfo ''bob'' ''pub-k2'')"
    by (rule Get_test_state(2))
  have r: "ReadString (stdin (test_state\<lparr>stdin := [CHR 0x0A]\<rparr>)) (CHR 0x0A) = (Inr [CHR 0x0A], [])"
    by simp
  have c: "cdc_UnmarshalBinary test_env [CHR 0x0A] None = Some (External ''not enough bytes'')"
    by (simp add: test_env_sel)
  from Sign_WatchOnly_panics [OF g r c] g r c show ?thesis by blast
qed

subsection \<open>Deleting\<close>

text \<open>
  Claim C3. For a stored Local record, \<^verbatim>\<open>Delete\<close> with a passphrase that fails to
  decrypt the armor returns the decryption error and leaves the state as it was, and with
  a passphrase that decrypts it succeeds and removes the record (through
  \<^verbatim>\<open>DeleteSync\<close>). For a stored WatchOnly record, \<^verbatim>\<open>Delete\<close> succeeds and
  removes the record when the token is \<open>yes\<close>, and for every other token returns an
  error and leaves the state as it was.
\<close>
theorem Delete_Local_WatchOnly:
  "(Get e name st = Inr (localInfo n pk armor) \<longrightarrow>
      (\<forall>err. unarmorDecryptPrivKey e armor passphrase = Inl err \<longrightarrow>
         Delete e name passphrase st = (Inl (Err err), st)) \<and>
      (\<forall>priv. unarmorDecryptPrivKey e armor passphrase = Inr priv \<longrightarrow>
         Delete e name passphrase st = (Inr (), db_DeleteSync (infoKey name) st) \<and>
         db_Get (snd (Delete e name passphrase st)) (infoKey name) = None)) \<and>
   (Get e name st = Inr (offlineInfo n pk) \<longrightarrow>
      (passphrase = ''yes'' \<longrightarrow>
         Delete e name passphrase st = (Inr (), db_DeleteSync (infoKey name) st) \<and>
         db_Get (snd (Delete e name passphrase st)) (infoKey name) = None) \<and>
      (passphrase \<noteq> ''yes'' \<longrightarrow>
         Delete e name passphrase st =
           (Inl (Err (Errorf
              ''enter 'yes' exactly to delete the key - this cannot be undone'' [])), st)))"
  by (simp add: Delete_def db_Get_DeleteSync_same)

theorem Delete_Local_WatchOnly_witness:
  "Get test_env ''alice'' test_state = Inr (localInfo ''alice'' ''pub-k1'' ''pw:k1'') \<and>
   unarmorDecryptPrivKey test_env ''pw:k1'' ''bad'' = Inl (External ''invalid account password'') \<and>
   Delete test_env ''alice'' ''bad'' test_state
     = (Inl (Err (External ''invalid account password'')), test_state) \<and>
   unarmorDecryptPrivKey test_env ''pw:k1'' ''pw'' = Inr (PrivKeySecp256k1 ''k1'') \<and>
   Delete test_env ''alice'' ''pw'' test_state
     = (Inr (), db_DeleteSync (infoKey ''alice'') test_state) \<and>
   db_Get (snd (Delete test_env ''alice'' ''pw'' test_state)) (infoKey ''alice'') = None \<and>
   Get test_env ''bob'' test_state = Inr (offlineInfo ''bob'' ''pub-k2'') \<and>
   Delete test_env ''bob'' ''yes'' test_state
     = (Inr (), db_DeleteSync (infoKey ''bob'') test_state) \<and>
   db_Get (snd (Delete test_env ''bob'' ''yes'' test_state)) (infoKey ''bob'') = None \<and>
   Delete test_env ''bob'' ''no'' test_state
     = (Inl (Err (Errorf
          ''enter 'yes' exactly to delete the key - this cannot be undone'' [])), test_state)"
proof -
  note a = Get_test_state0(1) and b = Get_test_state0(2)
  have n: "''no'' \<noteq> ''yes''" by simp
  from Delete_Local_WatchOnly
         [where e = test_env and name = "''alice''" and st = test_state and passphrase = "''bad''"
            and n = "''alice''" and pk = "''pub-k1''" and armor = "''pw:k1''"]
       a test_decrypt_k1(1)
  have 1: "Delete test_env ''alice'' ''bad'' test_state
     = (Inl (Err (External ''invalid account password'')), test_state)"
    by blast
  from Delete_Local_WatchOnly
         [where e = test_env and name = "''alice''" and st = test_state and passphrase = "''pw''"
            and n = "''alice''" and pk = "''pub-k1''" and armor = "''pw:k1''"]
       a test_decrypt_k1(2)
  have 2: "Delete test_env ''alice'' ''pw'' test_state
             = (Inr (), db_DeleteSync (infoKey ''alice'') test_state) \<and>
           db_Get (snd (Delete test_env ''alice'' ''pw'' test_state)) (infoKey ''alice'') = None"
    by blast
  from Delete_Local_WatchOnly
         [where e = test_env and name = "''bob''" and st = test_state and passphrase = "''yes''"
            and n = "''bob''" and pk = "''pub-k2''"]
       b
  have 3: "Delete test_env ''bob'' ''yes'' test_state
             = (Inr (), db_DeleteSync (infoKey ''bob'') test_state) \<and>
           db_Get (snd (Delete test_env ''bob'' ''yes'' test_state)) (infoKey ''bob'') = None"
    by blast
  from Delete_Local_WatchOnly
         [where e = test_env and name = "''bob''" and st = test_state and passphrase = "''no''"
            and n = "''bob''" and pk = "''pub-k2''"]
       b n
  have 4: "Delete test_env ''bob'' ''no'' test_state
     = (Inl (Err (Errorf
          ''enter 'yes' exactly to delete the key - this cannot be undone'' [])), test_state)"
    by blast
  from a b test_decrypt_k1 1 2 3 4 show ?thesis by blast
qed

text \<open>
  Claim C4. For a stored Hardware record and every passphrase, \<^verbatim>\<open>Delete\<close> returns
  success and the state, the record included, is what it was: the \<^verbatim>\<open>ledgerInfo\<close>
  case of the switch is empty and the function ends in \<^verbatim>\<open>return nil\<close>.
\<close>
theorem Delete_Hardware_noop:
  "Get e name st = Inr (ledgerInfo n pk path) \<Longrightarrow> Delete e name passphrase st = (Inr (), st)"
  by (simp add: Delete_def)

theorem Delete_Hardware_noop_witness:
  "Get test_env ''nano'' test_state = Inr (ledgerInfo ''nano'' ''ledgerpub'' []) \<and>
   Delete test_env ''nano'' ''yes'' test_state = (Inr (), test_state) \<and>
   Delete test_env ''nano'' '''' test_state = (Inr (), test_state)"
  using Get_test_state0(3) Delete_Hardware_noop [OF Get_test_state0(3)]
  by blast

subsection \<open>Creating and restoring\<close>






text \<open>
  Claim C6, as amended. \<^verbatim>\<open>CreateMnemonic\<close> returns
  \<^verbatim>\<open>ErrUnsupportedLanguage\<close> when the language is not English, and
  \<^verbatim>\<open>ErrUnsupportedSigningAlgo\<close> when the language is English and the algorithm is
  not secp256k1; in both cases the state is what it was, so nothing is written.
\<close>
theorem CreateMnemonic_unsupported:
  "(language \<noteq> English \<longrightarrow>
      CreateMnemonic e name language passwd algo st = (Inl (Err ErrUnsupportedLanguage), st)) \<and>
   (language = English \<and> algo \<noteq> Secp256k1 \<longrightarrow>
      CreateMnemonic e name language passwd algo st = (Inl (Err ErrUnsupportedSigningAlgo), st))"
  by (simp add: CreateMnemonic_def)

theorem CreateMnemonic_unsupported_witness:
  "Japanese \<noteq> English \<and>
   CreateMnemonic test_env ''alice'' Japanese ''pw'' Secp256k1 empty_state
     = (Inl (Err ErrUnsupportedLanguage), empty_state) \<and>
   ''ed25519'' \<noteq> Secp256k1 \<and>
   CreateMnemonic test_env ''alice'' English ''pw'' ''ed25519'' empty_state
     = (Inl (Err ErrUnsupportedSigningAlgo), empty_state)"
proof -
  have l: "Japanese \<noteq> English" by (simp add: Japanese_def English_def)
  have a: "''ed25519'' \<noteq> Secp256k1" by (simp add: Secp256k1_def)
  from CreateMnemonic_unsupported
         [where language = Japanese and e = test_env and name = "''alice''" and passwd = "''pw''"
            and algo = Secp256k1 and st = empty_state] l
  have 1: "CreateMnemonic test_env ''alice'' Japanese ''pw'' Secp256k1 empty_state
     = (Inl (Err ErrUnsupportedLanguage), empty_state)" by blast
  from CreateMnemonic_unsupported
         [where language = English and e = test_env and name = "''alice''" and passwd = "''pw''"
            and algo = "''ed25519''" and st = empty_state] a
  have 2: "CreateMnemonic test_env ''alice'' English ''pw'' ''ed25519'' empty_state
     = (Inl (Err ErrUnsupportedSigningAlgo), empty_state)" by blast
  from l a 1 2 show ?thesis by blast
qed

text \<open>
  Claim C6 as stated asks for the algorithm error whenever the algorithm is not secp256k1.
  The language is checked first: with Japanese and ed25519 the error is the language's.
\<close>
theorem CreateMnemonic_both_unsupported_counterexample:
  "Japanese \<noteq> English \<and> ''ed25519'' \<noteq> Secp256k1 \<and>
   fst (CreateMnemonic test_env ''alice'' Japanese ''pw'' ''ed25519'' empty_state)
     \<noteq> Inl (Err ErrUnsupportedSigningAlgo)"
  by (simp add: CreateMnemonic_def Japanese_def English_def Secp256k1_def)

text \<open>
  Claim C7. \<^verbatim>\<open>CreateKey\<close> returns its word-count error, and the state as it was,
  unless the mnemonic splits on single spaces into exactly 12 or exactly 24 pieces;
  \<^verbatim>\<open>CreateFundraiserKey\<close> does so unless it splits into exactly 12.
\<close>
theorem mnemonic_length_validation:
  "(length (Split mnemonic CHR '' '') \<noteq> 12 \<and> length (Split mnemonic CHR '' '') \<noteq> 24 \<longrightarrow>
      CreateKey e name mnemonic passwd st =
        (Inl (Err (Errorf
           ''recovering only works with 12 word (fundraiser) or 24 word mnemonics, got: %v words''
           [ArgN (length (Split mnemonic CHR '' ''))])), st)) \<and>
   (length (Split mnemonic CHR '' '') \<noteq> 12 \<longrightarrow>
      CreateFundraiserKey e name mnemonic passwd st =
        (Inl (Err (Errorf
           ''recovering only works with 12 word (fundraiser), got: %v words''
           [ArgN (length (Split mnemonic CHR '' ''))])), st))"
  by (simp add: CreateKey_def CreateFundraiserKey_def Let_def)

theorem mnemonic_length_validation_witness:
  "length (Split ''a b c'' CHR '' '') = 3 \<and>
   CreateKey test_env ''carol'' ''a b c'' ''pw'' empty_state =
     (Inl (Err (Errorf
        ''recovering only works with 12 word (fundraiser) or 24 word mnemonics, got: %v words''
        [ArgN 3])), empty_state) \<and>
   length (Split ''a b c d e f g h i j k l m n o p q r s t u v w x'' CHR '' '') = 24 \<and>
   CreateFundraiserKey test_env ''carol'' ''a b c d e f g h i j k l m n o p q r s t u v w x'' ''pw''
       empty_state =
     (Inl (Err (Errorf
        ''recovering only works with 12 word (fundraiser), got: %v words''
        [ArgN 24])), empty_state)"
proof -
  have 3: "length (Split ''a b c'' CHR '' '') = 3" by simp
  have 24: "length (Split ''a b c d e f g h i j k l m n o p q r s t u v w x'' CHR '' '') = 24"
    by simp
  from mnemonic_length_validation
         [where mnemonic = "''a b c''" and e = test_env and name = "''carol''"
            and passwd = "''pw''" and st = empty_state] 3
  have a: "CreateKey test_env ''carol'' ''a b c'' ''pw'' empty_state =
     (Inl (Err (Errorf
        ''recovering only works with 12 word (fundraiser) or 24 word mnemonics, got: %v words''
        [ArgN 3])), empty_state)" by simp
  from mnemonic_length_validation
         [where mnemonic = "''a b c d e f g h i j k l m n o p q r s t u v w x''" and e = test_env
            and name = "''carol''" and passwd = "''pw''" and st = empty_state] 24
  have b: "CreateFundraiserKey test_env ''carol''
             ''a b c d e f g h i j k l m n o p q r s t u v w x'' ''pw'' empty_state =
     (Inl (Err (Errorf
        ''recovering only works with 12 word (fundraiser), got: %v words''
        [ArgN 24])), empty_state)" by simp
  from 3 24 a b show ?thesis by blast
qed

subsection \<open>Importing\<close>

text \<open>
  Claim C8. When the database holds a non-empty value under the key of a name,
  \<^verbatim>\<open>Import\<close> and \<^verbatim>\<open>ImportPubKey\<close> for that name return the error
  \<open>Cannot overwrite data for name\<close> followed by the name, and the state is what it
  was. (A key whose value is empty is not occupied for the source: \<^verbatim>\<open>Get\<close> reports
  it as not found, and the two imports test \<^verbatim>\<open>len(bz) > 0\<close>.)
\<close>
theorem Import_occupied:
  assumes "db_Get st (infoKey name) = Some bz" and "bz \<noteq> []"
  shows "Import e name armor st =
           (Inl (Err (ErrorsNew (''Cannot overwrite data for name '' @ name))), st) \<and>
         ImportPubKey e name armor' st =
           (Inl (Err (ErrorsNew (''Cannot overwrite data for name '' @ name))), st)"
  using assms by (simp add: Import_def ImportPubKey_def)

theorem Import_occupied_witness:
  "db_Get test_state (infoKey ''bob'') = Some ''O/bob/pub-k2'' \<and> ''O/bob/pub-k2'' \<noteq> [] \<and>
   Import test_env ''bob'' ''INFO:O/eve/pub-k9'' test_state =
     (Inl (Err (ErrorsNew (''Cannot overwrite data for name '' @ ''bob''))), test_state) \<and>
   ImportPubKey test_env ''bob'' ''PUB:pub-k9'' test_state =
     (Inl (Err (ErrorsNew (''Cannot overwrite data for name '' @ ''bob''))), test_state)"
proof -
  have g: "db_Get test_state (infoKey ''bob'') = Some ''O/bob/pub-k2''"
    by (simp add: db_Get_def test_state_def infoKey_def)
  have n: "''O/bob/pub-k2'' \<noteq> []" by simp
  from Import_occupied [OF g n, of test_env "''INFO:O/eve/pub-k9''" "''PUB:pub-k9''"] g n
  show ?thesis by blast
qed

subsection \<open>Listing\<close>

lemma List_loop_Inr:
  "List_loop e it res = Inr infos \<Longrightarrow>
     \<exists>new. infos = res @ new \<and> map (\<lambda>kv. readInfo e (snd kv)) it = map Inr new"
proof (induction it arbitrary: res)
  case Nil
  then show ?case by simp
next
  case (Cons kv it)
  obtain k v where kv: "kv = (k, v)" by (cases kv)
  from Cons.prems kv obtain info where r: "readInfo e v = Inr info"
    and l: "List_loop e it (res @ [info]) = Inr infos"
    by (auto split: sum.splits)
  from Cons.IH [OF l] obtain new where "infos = (res @ [info]) @ new"
    and "map (\<lambda>kv. readInfo e (snd kv)) it = map Inr new" by blast
  with r kv show ?case by simp
qed

lemma List_key_order:
  assumes "fst (List e st) = Inr infos"
  shows "sorted (map fst (db_Iterator st)) \<and>
         map (\<lambda>kv. readInfo e (snd kv)) (db_Iterator st) = map Inr infos"
  using assms List_loop_Inr [of e "db_Iterator st" "[]" infos]
  by (simp add: List_def sorted_db_Iterator)

text \<open>
  Claim C9. The claim: \<^verbatim>\<open>List\<close> returns the identities in ascending lexicographic
  order of their names. The iterator runs in ascending order of the keys
  (\<open>List_key_order\<close>), and a key is the name followed by \<open>.info\<close>; a hyphen is
  smaller than a full stop, so the key of \<open>a-b\<close> comes before the key of \<open>a\<close>. After
  \<^verbatim>\<open>CreateOffline\<close> of \<open>a\<close> and of \<open>a-b\<close>, \<^verbatim>\<open>List\<close> returns \<open>a-b\<close>
  first, although \<open>a\<close> is the smaller name.
\<close>
theorem List_not_in_name_order:
  "fst (List test_env
         (snd (CreateOffline test_env ''a-b'' ''PK2''
           (snd (CreateOffline test_env ''a'' ''PK1'' empty_state)))))
     = Inr [offlineInfo ''a-b'' ''PK2'', offlineInfo ''a'' ''PK1'']
   \<and> ''a'' < ''a-b''"
  by (simp add: List_def CreateOffline_def writeOfflineKey_def kb_writeInfo_def db_SetSync_def
      db_Iterator_def newOfflineInfo_def infoKey_def empty_state_def test_env_sel
      test_writeInfo_def test_readInfo_def less_eq_char_def less_char_def)

subsection \<open>Which primitive a write goes through\<close>












end
